theory Spec2Isabelle
  imports Complex_Main "HOL-Library.Multiset"
begin

section \<open>Python values, exceptions and the random sources\<close>

text \<open>
  The exceptions the modelled code can raise. A raising call is the \<open>Inl\<close> branch of
  a result of type \<open>exn + 'a\<close>. Python floats are idealised as real numbers, and
  \<^verbatim>\<open>assert\<close> statements are executed, as the interpreter does by default.
\<close>

datatype exn = AssertionError | AttributeError | TypeError | ValueError | IndexError

fun exn_name :: "exn \<Rightarrow> string" where
  "exn_name AssertionError = ''AssertionError''"
| "exn_name AttributeError = ''AttributeError''"
| "exn_name TypeError = ''TypeError''"
| "exn_name ValueError = ''ValueError''"
| "exn_name IndexError = ''IndexError''"

definition bind :: "exn + 'a \<Rightarrow> ('a \<Rightarrow> exn + 'b) \<Rightarrow> exn + 'b" where
  "bind m f = (case m of Inl e \<Rightarrow> Inl e | Inr x \<Rightarrow> f x)"

text \<open>
  Running a list of fallible steps from left to right; the first exception ends the run,
  as in a Python comprehension.
\<close>

fun map_exn :: "('a \<Rightarrow> exn + 'b) \<Rightarrow> 'a list \<Rightarrow> exn + 'b list" where
  "map_exn f [] = Inr []"
| "map_exn f (x # xs) =
     (case f x of Inl e \<Rightarrow> Inl e
      | Inr y \<Rightarrow> (case map_exn f xs of Inl e \<Rightarrow> Inl e | Inr ys \<Rightarrow> Inr (y # ys)))"

text \<open>
  The module-global generators of \<^verbatim>\<open>random\<close> and \<^verbatim>\<open>numpy.random\<close>: a position and two
  streams of outcomes, one of naturals (reduced into the requested range) and one of
  reals (whose fractional part is the unit draw).
\<close>

datatype rng = Rng nat "nat \<Rightarrow> nat" "nat \<Rightarrow> real"

fun randbelow :: "nat \<Rightarrow> rng \<Rightarrow> nat \<times> rng" where
  "randbelow n (Rng k f g) = (f k mod n, Rng (Suc k) f g)"

fun unit_draw :: "rng \<Rightarrow> real \<times> rng" where
  "unit_draw (Rng k f g) = (frac (g k), Rng (Suc k) f g)"

text \<open>
  The argument of \<^verbatim>\<open>random.choice\<close>: a list, or the key view of a dictionary. The call
  raises IndexError on an empty argument and then subscripts it, which a key view does
  not support.
\<close>

datatype 'a choice_arg = PyList "'a list" | DictKeys "'a list"

fun random_choice :: "'a choice_arg \<Rightarrow> rng \<Rightarrow> exn + ('a \<times> rng)" where
  "random_choice (PyList xs) r =
     (if xs = [] then Inl IndexError
      else (case randbelow (length xs) r of (i, r') \<Rightarrow> Inr (xs ! i, r')))"
| "random_choice (DictKeys ks) r =
     (if ks = [] then Inl IndexError else Inl TypeError)"

text \<open>
  \<^verbatim>\<open>random.sample(population, 2)\<close>: ValueError when the population has fewer than two
  members, otherwise two members at distinct positions: one position drawn among \<open>n\<close>,
  its slot refilled with the last member, the second drawn among the first \<open>n - 1\<close>.
  (For populations of more than 21 members the library redraws the second position
  until it differs from the first; the pairs it can return are the same.)
\<close>

definition random_sample2 :: "'a list \<Rightarrow> rng \<Rightarrow> exn + (('a \<times> 'a) \<times> rng)" where
  "random_sample2 pop r =
     (let n = length pop in
      if n < 2 then Inl ValueError
      else (case randbelow n r of (i, r1) \<Rightarrow>
             (case randbelow (n - 1) r1 of (j, r2) \<Rightarrow>
                Inr ((pop ! i, (pop[i := pop ! (n - 1)]) ! j), r2))))"

text \<open>The argument of \<^verbatim>\<open>range\<close>: an integer, or an object that is not one (a list).\<close>

datatype 'a range_arg = IntArg int | ListArg "'a list"

fun py_range :: "'a range_arg \<Rightarrow> exn + nat list" where
  "py_range (IntArg n) = Inr [0 ..< nat n]"
| "py_range (ListArg xs) = Inl TypeError"

text \<open>\<^verbatim>\<open>int(x)\<close> on a float truncates towards zero; \<^verbatim>\<open>xs[:k]\<close> counts a negative \<open>k\<close> from the end.\<close>

definition py_int :: "real \<Rightarrow> int" where
  "py_int x = (if 0 \<le> x then \<lfloor>x\<rfloor> else \<lceil>x\<rceil>)"

definition slice_to :: "'a list \<Rightarrow> int \<Rightarrow> 'a list" where
  "slice_to xs k = (if 0 \<le> k then take (nat k) xs else take (length xs - nat (- k)) xs)"

text \<open>
  \<^verbatim>\<open>sorted(xs, key=f, reverse=True)\<close>: the list is reversed, sorted stably in ascending
  order of the key, and reversed again.
\<close>

definition sorted_reverse :: "('a \<Rightarrow> 'k::linorder) \<Rightarrow> 'a list \<Rightarrow> 'a list" where
  "sorted_reverse f xs = rev (sort_key f (rev xs))"

section \<open>bases.py: the data model\<close>

type_synonym vec = "real list"

text \<open>A two-dimensional array: its shape and its cells.\<close>

record matrix =
  nrows :: nat
  ncols :: nat
  cell :: "nat \<Rightarrow> nat \<Rightarrow> real"

record physique =
  mass :: "real option"
  max_s :: "real option"
  max_dsp :: "real option"
  max_dsn :: "real option"
  max_dh :: "real option"

record location =
  position :: "int \<times> int"
  heading :: real
  speed :: real

record sensory =
  labels :: "string list"
  width :: nat

record brain =
  afs :: "(vec \<Rightarrow> vec) list"
  coefs :: "matrix list"
  intercepts :: "vec list"
  n_layers :: nat

datatype species = Critter_cls | Plant_cls | Herby_cls

record critter =
  cls :: species
  physique :: "physique option"
  sensory :: "sensory option"
  brain :: "brain option"
  location :: location
  fitness :: int
  energy :: real

definition Physique_init ::
  "real option \<Rightarrow> real option \<Rightarrow> real option \<Rightarrow> real option \<Rightarrow> real option \<Rightarrow> physique" where
  "Physique_init m s dsp dsn dh =
     \<lparr>mass = m, max_s = s, max_dsp = dsp, max_dsn = dsn, max_dh = dh\<rparr>"

text \<open>\<^verbatim>\<open>Location()\<close> with its defaults.\<close>

definition Location_init :: location where
  "Location_init = \<lparr>position = (0, 0), heading = 0, speed = 0\<rparr>"

definition Brain_init :: "(vec \<Rightarrow> vec) list \<Rightarrow> matrix list \<Rightarrow> vec list \<Rightarrow> exn + brain" where
  "Brain_init a c i =
     (if length a = length c \<and> length c = length i
      then Inr \<lparr>afs = a, coefs = c, intercepts = i, n_layers = length c + 1\<rparr>
      else Inl AssertionError)"

subsection \<open>Forward propagation\<close>

text \<open>
  \<^verbatim>\<open>np.dot(v, m)\<close> of a vector and a two-dimensional array: the vector's length must be
  the number of rows; entry \<open>j\<close> of the product is the sum over \<open>i\<close> of \<open>v[i] * m[i][j]\<close>.
\<close>

definition np_dot :: "vec \<Rightarrow> matrix \<Rightarrow> exn + vec" where
  "np_dot v m =
     (if length v = nrows m
      then Inr (map (\<lambda>j. sum_list (map (\<lambda>i. v ! i * cell m i j) [0 ..< nrows m]))
                  [0 ..< ncols m])
      else Inl ValueError)"

text \<open>
  The sum of two vectors, with numpy's broadcasting of a vector of length one.
\<close>

definition np_add :: "vec \<Rightarrow> vec \<Rightarrow> exn + vec" where
  "np_add a b =
     (if length a = length b then Inr (map2 (+) a b)
      else if length a = 1 then Inr (map (\<lambda>y. a ! 0 + y) b)
      else if length b = 1 then Inr (map (\<lambda>x. x + b ! 0) a)
      else Inl ValueError)"

text \<open>
  An entry of the list \<^verbatim>\<open>activity\<close>: the integer 0 it is initialised with, or the array
  stored there since.
\<close>

datatype slot = Unset | Stored vec

text \<open>
  Reading \<^verbatim>\<open>activity[i]\<close> as the left operand of \<^verbatim>\<open>np.dot\<close>. The loop reads an entry only
  after writing it (lemma \<open>forward_reads_stored\<close> below), so the branch for an entry
  still holding the initial 0 is never taken.
\<close>

fun read_slot :: "slot list \<Rightarrow> nat \<Rightarrow> exn + vec" where
  "read_slot activity i =
     (if length activity \<le> i then Inl IndexError
      else (case activity ! i of Stored v \<Rightarrow> Inr v | Unset \<Rightarrow> Inl TypeError))"

text \<open>
  The loop \<^verbatim>\<open>for i, (m, b) in enumerate(zip(self.coefs, self.intercepts))\<close>, from index
  \<open>i\<close> on: the activation function is looked up first, then its argument is computed,
  then the result is stored at \<open>i + 1\<close>.
\<close>

fun forward :: "brain \<Rightarrow> nat \<Rightarrow> (matrix \<times> vec) list \<Rightarrow> slot list \<Rightarrow> exn + slot list" where
  "forward br i [] activity = Inr activity"
| "forward br i ((m, b) # rest) activity =
     (if length (afs br) \<le> i then Inl IndexError
      else
        bind (read_slot activity i) (\<lambda>v.
        bind (np_dot v m) (\<lambda>d.
        bind (np_add d b) (\<lambda>s.
          if length activity \<le> i + 1 then Inl IndexError
          else forward br (i + 1) rest (activity[i + 1 := Stored ((afs br ! i) s)])))))"

text \<open>
  \<^verbatim>\<open>Brain.__call__\<close> on a one-dimensional input (the branch for a batch maps the same
  function over the rows and is not modelled).
\<close>

definition Brain_call :: "brain \<Rightarrow> vec \<Rightarrow> exn + slot" where
  "Brain_call br x =
     (let activity = replicate (n_layers br) Unset
      in if activity = [] then Inl IndexError
         else bind (forward br 0 (zip (coefs br) (intercepts br)) (activity[0 := Stored x]))
                (\<lambda>activity. Inr (last activity)))"

text \<open>
  The activation sequence as the specification words it: activation 0 is the input, and
  activation \<open>i + 1\<close> is the \<open>i\<close>-th activation function applied to activation \<open>i\<close>
  times coefficient \<open>i\<close> plus bias \<open>i\<close>.
\<close>

fun activation :: "brain \<Rightarrow> vec \<Rightarrow> nat \<Rightarrow> exn + vec" where
  "activation br x 0 = Inr x"
| "activation br x (Suc i) =
     bind (activation br x i) (\<lambda>a.
     bind (np_dot a (coefs br ! i)) (\<lambda>d.
     bind (np_add d (intercepts br ! i)) (\<lambda>s.
     Inr ((afs br ! i) s))))"

text \<open>
  Layer shapes that chain from input width \<open>n\<close>: each coefficient array has as many rows
  as the previous layer is wide, and its bias has one entry per column.
\<close>

fun chained :: "nat \<Rightarrow> matrix list \<Rightarrow> vec list \<Rightarrow> bool" where
  "chained n [] [] = True"
| "chained n (m # ms) (b # bs) = (nrows m = n \<and> length b = ncols m \<and> chained (ncols m) ms bs)"
| "chained n _ _ = False"

fun out_width :: "nat \<Rightarrow> matrix list \<Rightarrow> nat" where
  "out_width n [] = n"
| "out_width n (m # ms) = out_width (ncols m) ms"

section \<open>evolvers.py: the genetic algorithm\<close>

record GlobalGA =
  selection_frac :: real
  crossover_rate :: real
  physical_mutation_rate :: real
  mental_mutation_rate :: real

definition GlobalGA_init :: "real \<Rightarrow> real \<Rightarrow> real \<Rightarrow> real \<Rightarrow> exn + GlobalGA" where
  "GlobalGA_init sf cr pm mm =
     (if \<not> (0 < sf \<and> sf < 1) then Inl AssertionError
      else if \<not> (0 \<le> cr \<and> cr \<le> 1) then Inl AssertionError
      else if \<not> 0 \<le> pm then Inl AssertionError
      else if \<not> 0 \<le> mm then Inl AssertionError
      else Inr \<lparr>selection_frac = sf, crossover_rate = cr,
                physical_mutation_rate = pm, mental_mutation_rate = mm\<rparr>)"

definition select :: "GlobalGA \<Rightarrow> critter list \<Rightarrow> critter list" where
  "select ga critters =
     (let c = sorted_reverse fitness critters
      in slice_to c (py_int (real (length c) * selection_frac ga)))"


subsection \<open>Crossover\<close>

text \<open>
  \<^verbatim>\<open>getattr\<close> on a critter. The instance attributes are those set by the constructor and
  the methods are those of the class; any other name raises AttributeError.
\<close>

datatype attr =
  APhysique "physique option" | ASensory "sensory option" | ABrain "brain option"
| ALocation location | AInt int | AFloat real | AMethod string

definition Critter_getattr :: "critter \<Rightarrow> string \<Rightarrow> exn + attr" where
  "Critter_getattr c name =
     (if name = ''physique'' then Inr (APhysique (physique c))
      else if name = ''sensory'' then Inr (ASensory (sensory c))
      else if name = ''brain'' then Inr (ABrain (brain c))
      else if name = ''location'' then Inr (ALocation (location c))
      else if name = ''fitness'' then Inr (AInt (fitness c))
      else if name = ''energy'' then Inr (AFloat (energy c))
      else if name = ''simulate'' \<or> name = ''_plot'' then Inr (AMethod name)
      else if name = ''plot'' \<and> cls c \<noteq> Critter_cls then Inr (AMethod name)
      else Inl AttributeError)"

text \<open>An attribute value times a float: defined on numbers, TypeError on anything else.\<close>

fun attr_times :: "attr \<Rightarrow> real \<Rightarrow> exn + real" where
  "attr_times (AInt i) r = Inr (real_of_int i * r)"
| "attr_times (AFloat x) r = Inr (x * r)"
| "attr_times _ r = Inl TypeError"

text \<open>
  \<^verbatim>\<open>getattr(p, att) * (1 - rate) + (getattr(s, att) * rate)\<close>, evaluated left to right.
\<close>

definition crossover_att :: "real \<Rightarrow> critter \<Rightarrow> critter \<Rightarrow> string \<Rightarrow> exn + real" where
  "crossover_att rate p s att =
     bind (Critter_getattr p att) (\<lambda>a.
     bind (attr_times a (1 - rate)) (\<lambda>x.
     bind (Critter_getattr s att) (\<lambda>b.
     bind (attr_times b rate) (\<lambda>y.
     Inr (x + y)))))"

text \<open>The keys of \<^verbatim>\<open>Physique().__dict__\<close>, in the order the constructor assigns them.\<close>

definition p_atts :: "string list" where
  "p_atts = [''mass'', ''max_s'', ''max_dsp'', ''max_dsn'', ''max_dh'']"

definition m_atts :: "string list" where
  "m_atts = [''coefs'', ''intercepts'']"

text \<open>\<^verbatim>\<open>Physique(**kw)\<close>: an unknown keyword is a TypeError, a missing one defaults to None.\<close>

definition Physique_kwargs :: "(string \<times> real) list \<Rightarrow> exn + physique" where
  "Physique_kwargs kw =
     (if list_ex (\<lambda>k. \<not> List.member p_atts k) (map fst kw) then Inl TypeError
      else Inr (Physique_init (map_of kw ''mass'') (map_of kw ''max_s'')
                  (map_of kw ''max_dsp'') (map_of kw ''max_dsn'') (map_of kw ''max_dh'')))"

text \<open>
  \<^verbatim>\<open>Brain(**kw)\<close> on keyword values that are floats: an unknown keyword or a missing
  required parameter is a TypeError, and so is \<^verbatim>\<open>len\<close> of a float in the constructor's
  assertion.
\<close>

definition Brain_kwargs :: "(string \<times> real) list \<Rightarrow> exn + brain" where
  "Brain_kwargs kw =
     (if list_ex (\<lambda>k. \<not> List.member [''afs'', ''coefs'', ''intercepts''] k) (map fst kw)
      then Inl TypeError
      else if list_ex (\<lambda>k. \<not> List.member (map fst kw) k) [''afs'', ''coefs'', ''intercepts'']
      then Inl TypeError
      else Inl TypeError)"

definition crossover :: "GlobalGA \<Rightarrow> critter \<Rightarrow> critter \<Rightarrow> exn + (physique \<times> brain)" where
  "crossover ga primary secondary =
     bind (map_exn (\<lambda>k. bind (crossover_att (crossover_rate ga) primary secondary k)
                          (\<lambda>v. Inr (k, v))) p_atts) (\<lambda>cross_p_atts.
     bind (Physique_kwargs cross_p_atts) (\<lambda>new_physique.
     bind (map_exn (\<lambda>k. bind (crossover_att (crossover_rate ga) primary secondary k)
                          (\<lambda>v. Inr (k, v))) m_atts) (\<lambda>cross_b_atts.
     bind (Brain_kwargs cross_b_atts) (\<lambda>new_brain.
     Inr (new_physique, new_brain)))))"

subsection \<open>Mutation\<close>

definition uniform_between :: "real \<Rightarrow> real \<Rightarrow> real \<Rightarrow> real" where
  "uniform_between low high u = low + (high - low) * u"

text \<open>
  \<^verbatim>\<open>val + np.random.uniform(val * (1 - rate), val * (1 + rate))\<close> at the unit draw \<open>u\<close>.
\<close>

definition new_val :: "real \<Rightarrow> real \<Rightarrow> real \<Rightarrow> real" where
  "new_val rate val u = val + uniform_between (val * (1 - rate)) (val * (1 + rate)) u"

fun unit_draws :: "nat \<Rightarrow> rng \<Rightarrow> real list \<times> rng" where
  "unit_draws 0 r = ([], r)"
| "unit_draws (Suc n) r =
     (case unit_draw r of (u, r1) \<Rightarrow> (case unit_draws n r1 of (us, r2) \<Rightarrow> (u # us, r2)))"

definition new_val_vec :: "real \<Rightarrow> vec \<Rightarrow> rng \<Rightarrow> vec \<times> rng" where
  "new_val_vec rate v r =
     (case unit_draws (length v) r of (us, r') \<Rightarrow> (map2 (new_val rate) v us, r'))"

definition new_val_matrix :: "real \<Rightarrow> matrix \<Rightarrow> rng \<Rightarrow> matrix \<times> rng" where
  "new_val_matrix rate m r =
     (case unit_draws (nrows m * ncols m) r of (us, r') \<Rightarrow>
        (m\<lparr>cell := (\<lambda>i j. if i < nrows m \<and> j < ncols m
                            then new_val rate (cell m i j) (us ! (i * ncols m + j))
                            else cell m i j)\<rparr>, r'))"

definition Physique_getattr :: "physique \<Rightarrow> string \<Rightarrow> exn + real option" where
  "Physique_getattr p att =
     (if att = ''mass'' then Inr (mass p)
      else if att = ''max_s'' then Inr (max_s p)
      else if att = ''max_dsp'' then Inr (max_dsp p)
      else if att = ''max_dsn'' then Inr (max_dsn p)
      else if att = ''max_dh'' then Inr (max_dh p)
      else Inl AttributeError)"

definition Physique_setattr :: "physique \<Rightarrow> string \<Rightarrow> real \<Rightarrow> physique" where
  "Physique_setattr p att v =
     (if att = ''mass'' then p\<lparr>mass := Some v\<rparr>
      else if att = ''max_s'' then p\<lparr>max_s := Some v\<rparr>
      else if att = ''max_dsp'' then p\<lparr>max_dsp := Some v\<rparr>
      else if att = ''max_dsn'' then p\<lparr>max_dsn := Some v\<rparr>
      else if att = ''max_dh'' then p\<lparr>max_dh := Some v\<rparr>
      else p)"

definition mutate_physique :: "GlobalGA \<Rightarrow> physique \<Rightarrow> rng \<Rightarrow> exn + (physique \<times> rng)" where
  "mutate_physique ga p r =
     bind (random_choice (DictKeys p_atts) r) (\<lambda>(att, r1).
     bind (Physique_getattr p att) (\<lambda>val_opt.
       case val_opt of
         None \<Rightarrow> Inl TypeError
       | Some val \<Rightarrow>
           (case unit_draw r1 of (u, r2) \<Rightarrow>
              Inr (Physique_setattr p att (new_val (physical_mutation_rate ga) val u), r2))))"

definition mutate_brain :: "GlobalGA \<Rightarrow> brain \<Rightarrow> rng \<Rightarrow> exn + (brain \<times> rng)" where
  "mutate_brain ga b r =
     bind (random_choice (PyList m_atts) r) (\<lambda>(att, r1).
     bind (py_range (ListArg (coefs b))) (\<lambda>layers.
     bind (random_choice (PyList layers) r1) (\<lambda>(layer_num, r2).
       if att = ''coefs'' then
         (if length (coefs b) \<le> layer_num then Inl IndexError
          else (case new_val_matrix (mental_mutation_rate ga) (coefs b ! layer_num) r2 of
                  (m, r3) \<Rightarrow> Inr (b\<lparr>coefs := (coefs b)[layer_num := m]\<rparr>, r3)))
       else
         (if length (intercepts b) \<le> layer_num then Inl IndexError
          else (case new_val_vec (mental_mutation_rate ga) (intercepts b ! layer_num) r2 of
                  (v, r3) \<Rightarrow> Inr (b\<lparr>intercepts := (intercepts b)[layer_num := v]\<rparr>, r3))))))"

subsection \<open>Mating and the generation step\<close>

text \<open>The keyword arguments the critter constructor accepts, each given or left out.\<close>

record kwargs =
  kw_fitness :: "int option"
  kw_energy :: "real option"

definition no_kwargs :: kwargs where
  "no_kwargs = \<lparr>kw_fitness = None, kw_energy = None\<rparr>"

text \<open>
  \<^verbatim>\<open>cls(new_physique, sensory, new_brain, location, **kwargs)\<close>. Critter and Herby share
  the base constructor, with fitness and energy defaulting to 0; the Plant constructor
  takes a location only, so four positional arguments are a TypeError.
\<close>

definition cls_call ::
  "species \<Rightarrow> physique \<Rightarrow> sensory option \<Rightarrow> brain \<Rightarrow> location \<Rightarrow> kwargs \<Rightarrow> exn + critter" where
  "cls_call c p s b loc kw =
     (if c = Plant_cls then Inl TypeError
      else Inr \<lparr>cls = c, physique = Some p, sensory = s, brain = Some b, location = loc,
                fitness = (case kw_fitness kw of None \<Rightarrow> 0 | Some f \<Rightarrow> f),
                energy = (case kw_energy kw of None \<Rightarrow> 0 | Some e \<Rightarrow> e)\<rparr>)"

definition mate_pair ::
  "GlobalGA \<Rightarrow> critter \<Rightarrow> critter \<Rightarrow> location \<Rightarrow> bool \<Rightarrow> bool \<Rightarrow> kwargs \<Rightarrow> rng
     \<Rightarrow> exn + (critter \<times> rng)" where
  "mate_pair ga primary secondary loc mut_p mut_b kw r =
     (if cls primary \<noteq> cls secondary then Inl AssertionError
      else
        bind (crossover ga primary secondary) (\<lambda>(new_physique, new_brain).
        bind (if mut_p then mutate_physique ga new_physique r else Inr (new_physique, r))
          (\<lambda>(new_physique, r1).
        bind (if mut_b then mutate_brain ga new_brain r1 else Inr (new_brain, r1))
          (\<lambda>(new_brain, r2).
        bind (cls_call (cls primary) new_physique (sensory primary) new_brain loc kw)
          (\<lambda>offspring. Inr (offspring, r2))))))"

type_synonym mating = "critter \<Rightarrow> critter \<Rightarrow> location \<Rightarrow> rng \<Rightarrow> exn + (critter \<times> rng)"

text \<open>
  The loop of \<^verbatim>\<open>evolve_generation\<close>: \<open>n\<close> rounds, each sampling two parents from the
  selection, mating them at a fresh location and appending the offspring to the pool.
  The mating step is an argument; the program passes \<open>mate_pair\<close>.
\<close>

fun breed :: "mating \<Rightarrow> critter list \<Rightarrow> nat \<Rightarrow> critter list \<Rightarrow> rng
    \<Rightarrow> exn + (critter list \<times> rng)" where
  "breed mate selection 0 new_gen_pool r = Inr (new_gen_pool, r)"
| "breed mate selection (Suc n) new_gen_pool r =
     (case random_sample2 selection r of
        Inl e \<Rightarrow> Inl e
      | Inr ((a, b), r1) \<Rightarrow>
          (case mate a b Location_init r1 of
             Inl e \<Rightarrow> Inl e
           | Inr (offspring, r2) \<Rightarrow> breed mate selection n (new_gen_pool @ [offspring]) r2))"

definition evolve_generation_with ::
  "mating \<Rightarrow> GlobalGA \<Rightarrow> critter list \<Rightarrow> rng \<Rightarrow> exn + (critter list \<times> rng)" where
  "evolve_generation_with mate ga critters r =
     (let selection = select ga critters;
          new_gen_size = length critters - length selection
      in bind (breed mate selection new_gen_size [] r)
           (\<lambda>(new_gen_pool, r'). Inr (selection @ new_gen_pool, r')))"

definition evolve_generation ::
  "GlobalGA \<Rightarrow> critter list \<Rightarrow> bool \<Rightarrow> bool \<Rightarrow> rng \<Rightarrow> exn + (critter list \<times> rng)" where
  "evolve_generation ga critters mut_p mut_b r =
     evolve_generation_with (\<lambda>a b loc. mate_pair ga a b loc mut_p mut_b no_kwargs)
       ga critters r"


section \<open>Concrete inputs\<close>

text \<open>A network of two inputs and one output, \<open>y = 2 * x\<^sub>0 + 3 * x\<^sub>1\<close>.\<close>

definition ex_matrix :: matrix where
  "ex_matrix = \<lparr>nrows = 2, ncols = 1, cell = (\<lambda>i j. if i = 0 then 2 else 3)\<rparr>"

definition ex_brain :: brain where
  "ex_brain = \<lparr>afs = [\<lambda>v. v], coefs = [ex_matrix], intercepts = [[0]], n_layers = 2\<rparr>"

definition ex_physique :: physique where
  "ex_physique = Physique_init (Some 1) (Some 2) (Some 3) (Some 4) (Some 5)"

definition ex_sensory :: sensory where
  "ex_sensory = \<lparr>labels = [''x'', ''y''], width = 2\<rparr>"

text \<open>A critter of class \<open>c\<close> with fitness \<open>f\<close>, as the base constructor builds it.\<close>

definition ex_critter :: "species \<Rightarrow> int \<Rightarrow> critter" where
  "ex_critter c f =
     \<lparr>cls = c, physique = Some ex_physique, sensory = Some ex_sensory, brain = Some ex_brain,
      location = Location_init, fitness = f, energy = 0\<rparr>"

definition ga_half :: GlobalGA where
  "ga_half = \<lparr>selection_frac = 1 / 2, crossover_rate = 1 / 2,
              physical_mutation_rate = 0, mental_mutation_rate = 0\<rparr>"

definition rng0 :: rng where
  "rng0 = Rng 0 (\<lambda>k. 0) (\<lambda>k. 0)"

definition ex_population :: "critter list" where
  "ex_population =
     [ex_critter Herby_cls 10, ex_critter Herby_cls 1, ex_critter Herby_cls 5,
      ex_critter Herby_cls 2]"

definition mixed_population :: "critter list" where
  "mixed_population =
     [ex_critter Critter_cls 10, ex_critter Herby_cls 1, ex_critter Herby_cls 5,
      ex_critter Herby_cls 2]"

section \<open>Selection\<close>

lemma GlobalGA_init_fraction:
  "GlobalGA_init sf cr pm mm = Inr ga \<Longrightarrow> 0 < selection_frac ga \<and> selection_frac ga < 1"
  by (auto simp: GlobalGA_init_def split: if_splits)

lemma ga_half_init: "GlobalGA_init (1 / 2) (1 / 2) 0 0 = Inr ga_half"
  by (simp add: GlobalGA_init_def ga_half_def)

lemma bind_Inr [simp]: "bind (Inr x) f = f x"
  by (simp add: bind_def)

lemma bind_Inl [simp]: "bind (Inl e) f = Inl e"
  by (simp add: bind_def)

lemma sorted_reverse_desc: "sorted_wrt (\<lambda>a b. f b \<le> f a) (sorted_reverse f xs)"
proof -
  have "sorted (map f (sort_key f (rev xs)))"
    by (rule sorted_sort_key)
  then have "sorted_wrt (\<lambda>a b. f a \<le> f b) (sort_key f (rev xs))"
    by (simp add: sorted_wrt_map)
  then show ?thesis
    by (simp add: sorted_reverse_def sorted_wrt_rev)
qed

lemma sorted_reverse_mset: "mset (sorted_reverse f xs) = mset xs"
  by (simp add: sorted_reverse_def)

lemma sorted_reverse_stable:
  "filter (\<lambda>y. f y = k) (sorted_reverse f xs) = filter (\<lambda>y. f y = k) xs"
proof -
  have "filter (\<lambda>y. f y = k) (sorted_reverse f xs)
      = rev (filter (\<lambda>y. f y = k) (sort_key f (rev xs)))"
    by (simp add: sorted_reverse_def rev_filter)
  also have "\<dots> = rev (filter (\<lambda>y. f y = k) (rev xs))"
    by (simp only: sort_key_stable)
  also have "\<dots> = filter (\<lambda>y. f y = k) xs"
    by (simp add: rev_filter)
  finally show ?thesis .
qed

lemma select_take:
  assumes "0 < selection_frac ga"
  shows "select ga cs
         = take (nat \<lfloor>real (length cs) * selection_frac ga\<rfloor>) (sorted_reverse fitness cs)"
proof -
  have "0 \<le> real (length cs) * selection_frac ga"
    using assms by simp
  then show ?thesis
    by (simp add: select_def Let_def py_int_def slice_to_def sorted_reverse_def)
qed

lemma select_length_le: "length (select ga cs) \<le> length cs"
  by (simp add: select_def Let_def slice_to_def sorted_reverse_def)

lemma select_subset: "set (select ga cs) \<subseteq> set cs"
proof -
  have "set (select ga cs) \<subseteq> set (sorted_reverse fitness cs)"
    by (auto simp: select_def Let_def slice_to_def dest: in_set_takeD)
  then show ?thesis
    by (simp add: sorted_reverse_def)
qed

lemma select_shorter:
  assumes "0 < selection_frac ga" "selection_frac ga < 1" "cs \<noteq> []"
  shows "length (select ga cs) < length cs"
proof -
  let ?n = "real (length cs)"
  have "0 < ?n"
    using assms(3) by simp
  then have "?n * selection_frac ga < ?n"
    using assms(2) by simp
  then have "\<lfloor>?n * selection_frac ga\<rfloor> < int (length cs)"
    by (simp add: floor_less_iff)
  moreover have "0 \<le> ?n * selection_frac ga"
    using assms(1) by simp
  ultimately show ?thesis
    by (simp add: select_def Let_def slice_to_def py_int_def sorted_reverse_def) linarith
qed

lemma select_small:
  assumes "0 < selection_frac ga" "selection_frac ga < 1" "length cs \<le> 1"
  shows "select ga cs = []"
proof (cases "cs = []")
  case True
  then show ?thesis
    by (simp add: select_def Let_def slice_to_def sorted_reverse_def)
next
  case False
  then have "length (select ga cs) < length cs"
    using assms select_shorter by blast
  then have "length (select ga cs) = 0"
    using assms(3) by linarith
  then show ?thesis by simp
qed

lemma select_ex_population:
  "select ga_half ex_population = [ex_critter Herby_cls 10, ex_critter Herby_cls 5]"
  by (simp add: select_def Let_def py_int_def slice_to_def sorted_reverse_def ga_half_def
      ex_population_def ex_critter_def)

lemma select_mixed_population:
  "select ga_half mixed_population = [ex_critter Critter_cls 10, ex_critter Herby_cls 5]"
  by (simp add: select_def Let_def py_int_def slice_to_def sorted_reverse_def ga_half_def
      mixed_population_def ex_critter_def)

text \<open>
  Claim C6. Selection sorts the population by fitness in descending order, ties keeping
  their original order, and returns the first \<open>floor (N * selection_frac)\<close> individuals:
  the result is that prefix of the sorted list; the sorted list is descending in
  fitness, is a rearrangement of the population, and keeps the individuals of each
  fitness value in their original order. For four individuals of fitness 10, 1, 5, 2
  and fraction 0.5 the parent pool is the individuals of fitness 10 and 5, in that order.
\<close>

theorem select_stable_descending_prefix:
  assumes "0 < selection_frac ga"
  shows "select ga cs
           = take (nat \<lfloor>real (length cs) * selection_frac ga\<rfloor>) (sorted_reverse fitness cs)
       \<and> sorted_wrt (\<lambda>a b. fitness b \<le> fitness a) (sorted_reverse fitness cs)
       \<and> mset (sorted_reverse fitness cs) = mset cs
       \<and> (\<forall>k. filter (\<lambda>c. fitness c = k) (sorted_reverse fitness cs)
                = filter (\<lambda>c. fitness c = k) cs)
       \<and> select ga_half ex_population = [ex_critter Herby_cls 10, ex_critter Herby_cls 5]"
  using select_take [OF assms] sorted_reverse_desc [of fitness cs]
    sorted_reverse_mset [of fitness cs] sorted_reverse_stable [of fitness _ cs]
    select_ex_population
  by simp

theorem select_stable_descending_prefix_witness:
  "0 < selection_frac ga_half
   \<and> select ga_half ex_population = take 2 (sorted_reverse fitness ex_population)
   \<and> sorted_wrt (\<lambda>a b. fitness b \<le> fitness a) (sorted_reverse fitness ex_population)
   \<and> select ga_half ex_population = [ex_critter Herby_cls 10, ex_critter Herby_cls 5]"
proof -
  have h: "0 < selection_frac ga_half"
    by (simp add: ga_half_def)
  have n: "nat \<lfloor>real (length ex_population) * selection_frac ga_half\<rfloor> = 2"
    by (simp add: ga_half_def ex_population_def)
  note t = select_stable_descending_prefix [OF h, of ex_population, unfolded n]
  show ?thesis
    using h t by blast
qed


section \<open>Forward propagation\<close>

lemma np_dot_not_TypeError: "np_dot v m \<noteq> Inl TypeError"
  by (simp add: np_dot_def)

lemma np_add_not_TypeError: "np_add a b \<noteq> Inl TypeError"
  by (simp add: np_add_def)

text \<open>An entry that is read has been stored: the loop never meets the initial 0.\<close>

lemma forward_reads_stored:
  "i < length activity \<Longrightarrow> activity ! i = Stored v \<Longrightarrow>
   forward br i layers activity \<noteq> Inl TypeError"
proof (induction layers arbitrary: i activity v)
  case Nil
  then show ?case by simp
next
  case (Cons l layers)
  obtain m b where l: "l = (m, b)"
    by (cases l)
  show ?case
  proof (cases "np_dot v m")
    case (Inl e)
    then show ?thesis
      using Cons.prems l np_dot_not_TypeError [of v m] by auto
  next
    case d: (Inr d)
    show ?thesis
    proof (cases "np_add d b")
      case (Inl e)
      then show ?thesis
        using Cons.prems l d np_add_not_TypeError [of d b] by auto
    next
      case s: (Inr s)
      show ?thesis
      proof (cases "length activity \<le> i + 1")
        case True
        then show ?thesis
          using Cons.prems l d s by simp
      next
        case False
        let ?act = "activity[i + 1 := Stored ((afs br ! i) s)]"
        have "forward br (i + 1) layers ?act \<noteq> Inl TypeError"
          by (rule Cons.IH [of "i + 1" ?act "(afs br ! i) s"]) (use False in simp_all)
        then show ?thesis
          using Cons.prems l d s False by simp
      qed
    qed
  qed
qed

lemma Brain_call_reads_stored: "Brain_call br x \<noteq> Inl TypeError"
proof (cases "n_layers br = 0")
  case True
  then show ?thesis
    by (simp add: Brain_call_def)
next
  case False
  let ?act = "(replicate (n_layers br) Unset)[0 := Stored x]"
  have "forward br 0 (zip (coefs br) (intercepts br)) ?act \<noteq> Inl TypeError"
    by (rule forward_reads_stored [where v = x]) (use False in simp_all)
  then show ?thesis
    using False by (auto simp: Brain_call_def Let_def bind_def split: sum.splits)
qed

lemma activation_error_persists:
  "activation br x i = Inl e \<Longrightarrow> i \<le> j \<Longrightarrow> activation br x j = Inl e"
proof (induction j)
  case 0
  then show ?case by simp
next
  case (Suc j)
  show ?case
  proof (cases "i = Suc j")
    case True
    then show ?thesis
      using Suc.prems by simp
  next
    case False
    then have "activation br x j = Inl e"
      using Suc by simp
    then show ?thesis by simp
  qed
qed

text \<open>
  The loop invariant: with activation \<open>i\<close> stored at index \<open>i\<close>, running the remaining
  layers ends with the last activation in the last entry, or with the same exception.
\<close>

lemma forward_activation:
  assumes "length (afs br) = L" "length (coefs br) = L" "length (intercepts br) = L"
  shows "length activity = L + 1 \<Longrightarrow> i \<le> L \<Longrightarrow> activation br x i = Inr a \<Longrightarrow>
         activity ! i = Stored a \<Longrightarrow>
         bind (forward br i (drop i (zip (coefs br) (intercepts br))) activity)
              (\<lambda>act. Inr (last act))
         = bind (activation br x L) (\<lambda>a. Inr (Stored a))"
proof (induction "L - i" arbitrary: i activity a)
  case 0
  then have "i = L" by simp
  moreover have "activity \<noteq> []"
    using 0 by auto
  ultimately show ?case
    using 0 assms by (simp add: last_conv_nth)
next
  case (Suc k)
  then have iL: "i < L" by simp
  let ?zs = "zip (coefs br) (intercepts br)"
  have dr: "drop i ?zs = (coefs br ! i, intercepts br ! i) # drop (Suc i) ?zs"
    using iL assms by (simp add: Cons_nth_drop_Suc [symmetric])
  show ?case
  proof (cases "np_dot a (coefs br ! i)")
    case (Inl e)
    then have "activation br x (Suc i) = Inl e"
      using Suc.prems by simp
    then have "activation br x L = Inl e"
      using iL activation_error_persists [of br x "Suc i" e L] by simp
    then show ?thesis
      using Inl dr assms iL Suc.prems by simp
  next
    case d: (Inr d)
    show ?thesis
    proof (cases "np_add d (intercepts br ! i)")
      case (Inl e)
      then have "activation br x (Suc i) = Inl e"
        using Suc.prems d by simp
      then have "activation br x L = Inl e"
        using iL activation_error_persists [of br x "Suc i" e L] by simp
      then show ?thesis
        using Inl d dr assms iL Suc.prems by simp
    next
      case s: (Inr s)
      let ?a = "(afs br ! i) s"
      let ?act = "activity[i + 1 := Stored ?a]"
      have act: "activation br x (Suc i) = Inr ?a"
        using Suc.prems d s by simp
      have "bind (forward br (Suc i) (drop (Suc i) ?zs) ?act) (\<lambda>act. Inr (last act))
            = bind (activation br x L) (\<lambda>a. Inr (Stored a))"
      proof (rule Suc.hyps(1))
        show "k = L - Suc i"
          using Suc.hyps(2) by simp
        show "length ?act = L + 1"
          using Suc.prems by simp
        show "Suc i \<le> L"
          using iL by simp
        show "activation br x (Suc i) = Inr ?a"
          by (rule act)
        show "?act ! Suc i = Stored ?a"
          using Suc.prems iL by simp
      qed
      then show ?thesis
        using d s dr assms iL Suc.prems by simp
    qed
  qed
qed

lemma Brain_init_fields:
  assumes "Brain_init a c b = Inr br"
  shows "length a = length c" and "length b = length c"
    and "br = \<lparr>afs = a, coefs = c, intercepts = b, n_layers = length c + 1\<rparr>"
  using assms by (auto simp: Brain_init_def split: if_splits)

lemma Brain_call_activation:
  assumes "Brain_init a c b = Inr br"
  shows "Brain_call br x = bind (activation br x (length (coefs br))) (\<lambda>v. Inr (Stored v))"
proof -
  let ?L = "length c"
  note f = Brain_init_fields [OF assms]
  let ?act = "(replicate (n_layers br) Unset)[0 := Stored x]"
  have "bind (forward br 0 (drop 0 (zip (coefs br) (intercepts br))) ?act)
             (\<lambda>act. Inr (last act))
        = bind (activation br x ?L) (\<lambda>a. Inr (Stored a))"
    by (rule forward_activation [where a = x]) (simp_all add: f)
  then show ?thesis
    by (simp add: Brain_call_def Let_def f(3))
qed


lemma sum_list_zero:
  "(\<And>x. x \<in> set xs \<Longrightarrow> f x = (0::real)) \<Longrightarrow> sum_list (map f xs) = 0"
  by (induction xs) simp_all

lemma np_dot_zero: "nrows m = k \<Longrightarrow> np_dot (replicate k 0) m = Inr (replicate (ncols m) 0)"
proof -
  assume k: "nrows m = k"
  have "map (\<lambda>j. sum_list (map (\<lambda>i. replicate k 0 ! i * cell m i j) [0 ..< k])) [0 ..< ncols m]
        = map (\<lambda>j. 0) [0 ..< ncols m]"
    by (rule map_cong [OF refl], rule sum_list_zero) simp
  then show ?thesis
    using k by (simp add: np_dot_def map_replicate_const)
qed

lemma np_add_zero:
  "length b = k \<Longrightarrow> \<forall>y \<in> set b. y = 0 \<Longrightarrow> np_add (replicate k 0) b = Inr (replicate k 0)"
proof -
  assume "length b = k" and "\<forall>y \<in> set b. y = 0"
  then have "b = replicate k 0"
    using replicate_length_same [of b 0] by auto
  then show ?thesis
    by (simp add: np_add_def map_replicate_const)
qed

lemma np_dot_length: "np_dot v m = Inr d \<Longrightarrow> length d = ncols m"
  by (auto simp: np_dot_def split: if_splits)

lemma np_dot_defined: "length v = nrows m \<Longrightarrow> \<exists>d. np_dot v m = Inr d"
  by (simp add: np_dot_def)

lemma np_add_same_length:
  "length a = length b \<Longrightarrow> \<exists>s. np_add a b = Inr s \<and> length s = length b"
  by (simp add: np_add_def)

lemma out_width_snoc: "out_width n (ms @ [m]) = ncols m"
  by (induction ms arbitrary: n) simp_all

lemma chained_snoc:
  "chained n (ms @ [m]) (bs @ [b]) \<Longrightarrow> length ms = length bs \<Longrightarrow>
   chained n ms bs \<and> nrows m = out_width n ms \<and> length b = ncols m"
  by (induction n ms bs rule: chained.induct) simp_all

lemma chained_step:
  assumes "Suc i \<le> length ms" "Suc i \<le> length bs"
      and "chained n (take (Suc i) ms) (take (Suc i) bs)"
  shows "chained n (take i ms) (take i bs)"
    and "nrows (ms ! i) = out_width n (take i ms)"
    and "length (bs ! i) = ncols (ms ! i)"
    and "out_width n (take (Suc i) ms) = ncols (ms ! i)"
proof -
  have tk: "take (Suc i) ms = take i ms @ [ms ! i]" "take (Suc i) bs = take i bs @ [bs ! i]"
    using assms(1,2) by (simp_all add: take_Suc_conv_app_nth)
  have len: "length (take i ms) = length (take i bs)"
    using assms(1,2) by simp
  note c = chained_snoc [OF assms(3) [unfolded tk] len]
  show "chained n (take i ms) (take i bs)"
    and "nrows (ms ! i) = out_width n (take i ms)"
    and "length (bs ! i) = ncols (ms ! i)"
    using c by simp_all
  show "out_width n (take (Suc i) ms) = ncols (ms ! i)"
    by (simp add: tk out_width_snoc)
qed

lemma activation_zero:
  assumes zero: "\<forall>b \<in> set (intercepts br). \<forall>y \<in> set b. y = 0"
      and ident: "\<forall>f \<in> set (afs br). f = (\<lambda>v. v)"
  shows "i \<le> length (coefs br) \<Longrightarrow> i \<le> length (intercepts br) \<Longrightarrow> i \<le> length (afs br) \<Longrightarrow>
         chained n (take i (coefs br)) (take i (intercepts br)) \<Longrightarrow>
         activation br (replicate n 0) i
         = Inr (replicate (out_width n (take i (coefs br))) 0)"
proof (induction i)
  case 0
  then show ?case by simp
next
  case (Suc i)
  let ?m = "coefs br ! i" and ?b = "intercepts br ! i"
  note c = chained_step [OF Suc.prems(1) Suc.prems(2) Suc.prems(4)]
  have prev: "activation br (replicate n 0) i = Inr (replicate (nrows ?m) 0)"
    using Suc.IH Suc.prems c by simp
  have "?b \<in> set (intercepts br)"
    using Suc.prems by (intro nth_mem) simp
  then have bz: "\<forall>y \<in> set ?b. y = 0"
    using zero by simp
  have "afs br ! i \<in> set (afs br)"
    using Suc.prems by (intro nth_mem) simp
  then have af: "afs br ! i = (\<lambda>v. v)"
    using ident by simp
  show ?case
    using prev np_dot_zero [of ?m "nrows ?m"] np_add_zero [OF c(3) bz] af c(4) by simp
qed

lemma activation_returns:
  assumes keep: "\<forall>f \<in> set (afs br). \<forall>v. length (f v) = length v"
  shows "i \<le> length (coefs br) \<Longrightarrow> i \<le> length (intercepts br) \<Longrightarrow> i \<le> length (afs br) \<Longrightarrow>
         chained (length x) (take i (coefs br)) (take i (intercepts br)) \<Longrightarrow>
         \<exists>v. activation br x i = Inr v \<and> length v = out_width (length x) (take i (coefs br))"
proof (induction i)
  case 0
  then show ?case by simp
next
  case (Suc i)
  let ?m = "coefs br ! i" and ?b = "intercepts br ! i"
  note c = chained_step [OF Suc.prems(1) Suc.prems(2) Suc.prems(4)]
  obtain v where v: "activation br x i = Inr v" "length v = nrows ?m"
    using Suc.IH Suc.prems c by auto
  obtain d where d: "np_dot v ?m = Inr d"
    using np_dot_defined [OF v(2)] by blast
  then have "length d = length ?b"
    using np_dot_length c(3) by simp
  then obtain s where s: "np_add d ?b = Inr s" "length s = length ?b"
    using np_add_same_length by blast
  have "afs br ! i \<in> set (afs br)"
    using Suc.prems by (intro nth_mem) simp
  then have "length ((afs br ! i) s) = length s"
    using keep by simp
  then show ?case
    using v d s c(3,4) by simp
qed

text \<open>
  Claim C5. For a network built by the constructor and a single input vector \<open>x\<close>,
  inference returns the final element of the activation sequence that starts with \<open>x\<close>
  and applies to activation \<open>i\<close> the matrix-vector product with coefficient \<open>i\<close>, the
  addition of bias \<open>i\<close> and activation function \<open>i\<close>, and raises where that sequence
  does. When the layer shapes chain from the width of \<open>x\<close> and the activation functions
  keep the length of their argument, it returns a vector of the output width; on the
  all-zero input with all-zero biases and identity activations that vector is zero.
\<close>

theorem Brain_call_final_activation:
  assumes "Brain_init a c b = Inr br"
  shows "Brain_call br x = bind (activation br x (length c)) (\<lambda>v. Inr (Stored v))
       \<and> (chained (length x) c b \<and> (\<forall>f \<in> set a. \<forall>v. length (f v) = length v)
            \<longrightarrow> (\<exists>v. Brain_call br x = Inr (Stored v) \<and> length v = out_width (length x) c))
       \<and> (chained n c b \<and> (\<forall>v \<in> set b. \<forall>y \<in> set v. y = 0) \<and> (\<forall>f \<in> set a. f = (\<lambda>v. v))
            \<longrightarrow> Brain_call br (replicate n 0) = Inr (Stored (replicate (out_width n c) 0)))"
proof -
  note f = Brain_init_fields [OF assms]
  have sel: "afs br = a" "coefs br = c" "intercepts br = b"
    by (simp_all add: f(3))
  have call: "\<And>y. Brain_call br y = bind (activation br y (length c)) (\<lambda>v. Inr (Stored v))"
    using Brain_call_activation [OF assms] sel by simp
  have ret: "\<exists>v. Brain_call br x = Inr (Stored v) \<and> length v = out_width (length x) c"
    if "chained (length x) c b" "\<forall>f \<in> set a. \<forall>v. length (f v) = length v"
  proof -
    have "\<exists>v. activation br x (length c) = Inr v
             \<and> length v = out_width (length x) (take (length c) (coefs br))"
      by (rule activation_returns) (use that f(1,2) in \<open>simp_all add: sel\<close>)
    then show ?thesis
      using call [of x] sel by auto
  qed
  have zero: "Brain_call br (replicate n 0) = Inr (Stored (replicate (out_width n c) 0))"
    if "chained n c b" "\<forall>v \<in> set b. \<forall>y \<in> set v. y = 0" "\<forall>f \<in> set a. f = (\<lambda>v. v)"
  proof -
    have "activation br (replicate n 0) (length c)
          = Inr (replicate (out_width n (take (length c) (coefs br))) 0)"
      by (rule activation_zero) (use that f(1,2) in \<open>simp_all add: sel\<close>)
    then show ?thesis
      using call [of "replicate n 0"] sel by simp
  qed
  show ?thesis
    using call [of x] ret zero by blast
qed

theorem Brain_call_final_activation_witness:
  "Brain_init [\<lambda>v. v] [ex_matrix] [[0]] = Inr ex_brain
   \<and> chained 2 [ex_matrix] [[0]]
   \<and> list_all (list_all (\<lambda>y. y = 0)) [[0::real]]
   \<and> list_all (\<lambda>f. f = (\<lambda>v. v)) [\<lambda>v::vec. v]
   \<and> Brain_call ex_brain [1, 1] = Inr (Stored [5])
   \<and> Brain_call ex_brain [0, 0] = Inr (Stored [0])"
proof -
  have h: "Brain_init [\<lambda>v. v] [ex_matrix] [[0]] = Inr ex_brain"
    by (simp add: Brain_init_def ex_brain_def)
  have ch: "chained 2 [ex_matrix] [[0]]"
    by (simp add: ex_matrix_def)
  have act: "activation ex_brain [1, 1] (length [ex_matrix]) = Inr [5]"
    by (simp add: ex_brain_def ex_matrix_def np_dot_def np_add_def numeral_2_eq_2)
  note t1 = Brain_call_final_activation [OF h, of "[1, 1]" 2]
  note t2 = Brain_call_final_activation [OF h, of "[0, 0]" 2]
  have one: "Brain_call ex_brain [1, 1] = Inr (Stored [5])"
    using t1 act by simp
  have hyps: "chained 2 [ex_matrix] [[0]] \<and> (\<forall>v \<in> set [[0::real]]. \<forall>y \<in> set v. y = 0)
              \<and> (\<forall>f \<in> set [\<lambda>v::vec. v]. f = (\<lambda>v. v))"
    using ch by simp
  have "Brain_call ex_brain (replicate 2 0)
        = Inr (Stored (replicate (out_width 2 [ex_matrix]) 0))"
    using t2 [THEN conjunct2, THEN conjunct2] hyps by blast
  moreover have "replicate 2 (0::real) = [0, 0]" and "out_width 2 [ex_matrix] = 1"
    by (simp_all add: ex_matrix_def numeral_2_eq_2)
  ultimately have zero: "Brain_call ex_brain [0, 0] = Inr (Stored [0])"
    by simp
  show ?thesis
    using h ch one zero by simp
qed


section \<open>Crossover and mutation\<close>

lemma crossover_att_mass: "crossover_att rate p s ''mass'' = Inl AttributeError"
  by (simp add: crossover_att_def Critter_getattr_def)

lemma crossover_first_key: "crossover ga p s = Inl AttributeError"
  by (simp add: crossover_def p_atts_def crossover_att_mass)

text \<open>
  Claim C4. The blend \<open>primary * (1 - r) + secondary * r\<close> is computed by
  \<open>crossover_att\<close> from attributes it reads off the two critters themselves, which
  have no attribute named after a physical trait or a weight list: on every pair of
  parents the first lookup, of \<open>mass\<close>, raises AttributeError, and so does the crossover.
\<close>

theorem crossover_raises_attribute_error:
  "crossover ga primary secondary = Inl AttributeError
   \<and> crossover_att (crossover_rate ga) primary secondary ''mass'' = Inl AttributeError"
  by (simp add: crossover_def p_atts_def crossover_att_mass)

text \<open>
  Claim C3. Physical mutation asks \<^verbatim>\<open>random.choice\<close> for a member of a dictionary's key
  view, which raises TypeError on every physique; and the value it would store is the
  old value plus the draw, which at rate 0 is twice the old value.
\<close>

theorem mutate_physique_raises_type_error:
  "mutate_physique ga p r = Inl TypeError \<and> new_val 0 v u = 2 * v"
  by (simp add: mutate_physique_def p_atts_def new_val_def uniform_between_def)

text \<open>
  Claim C7. Mental mutation asks \<^verbatim>\<open>range\<close> for the indices of the coefficient list
  itself rather than of its length, which raises TypeError on every brain: no layer
  is replaced and no brain is returned.
\<close>

theorem mutate_brain_raises_type_error: "mutate_brain ga b r = Inl TypeError"
  by (cases r) (simp add: mutate_brain_def m_atts_def)

section \<open>Mating\<close>

lemma mate_pair_mismatch:
  "cls p \<noteq> cls s \<Longrightarrow> mate_pair ga p s loc mut_p mut_b kw r = Inl AssertionError"
  by (simp add: mate_pair_def)

lemma mate_pair_same_class:
  "cls p = cls s \<Longrightarrow> mate_pair ga p s loc mut_p mut_b kw r = Inl AttributeError"
  by (simp add: mate_pair_def crossover_first_key)

text \<open>
  Claim C10. Two parents of the same class, with the same sensory extractor and
  topology: the mating raises AttributeError in the crossover, with or without
  mutation, and returns no offspring.
\<close>

theorem mate_pair_returns_no_offspring:
  "mate_pair ga_half (ex_critter Herby_cls 10) (ex_critter Herby_cls 5) Location_init
     True True no_kwargs rng0 = Inl AttributeError
   \<and> mate_pair ga_half (ex_critter Herby_cls 10) (ex_critter Herby_cls 5) Location_init
     False False no_kwargs rng0 = Inl AttributeError"
  by (simp add: mate_pair_def crossover_first_key ex_critter_def)


section \<open>The generation step\<close>

lemma random_sample2_ok:
  assumes "2 \<le> length pop"
  shows "\<exists>a b r'. random_sample2 pop r = Inr ((a, b), r') \<and> a \<in> set pop \<and> b \<in> set pop"
proof -
  obtain k f g where r: "r = Rng k f g"
    by (cases r)
  let ?n = "length pop"
  let ?i = "f k mod ?n" and ?j = "f (Suc k) mod (?n - 1)"
  have "0 < ?n" and "0 < ?n - 1"
    using assms by linarith+
  then have i: "?i < ?n" and j: "?j < ?n - 1"
    by (simp_all only: mod_less_divisor)
  have a: "pop ! ?i \<in> set pop"
    using i by simp
  have "pop[?i := pop ! (?n - 1)] ! ?j \<in> set (pop[?i := pop ! (?n - 1)])"
    using j by (intro nth_mem) simp
  moreover have "set (pop[?i := pop ! (?n - 1)]) \<subseteq> insert (pop ! (?n - 1)) (set pop)"
    by (rule set_update_subset_insert)
  moreover have "pop ! (?n - 1) \<in> set pop"
    using assms by simp
  ultimately have b: "pop[?i := pop ! (?n - 1)] ! ?j \<in> set pop"
    by auto
  show ?thesis
    using assms a b by (simp add: random_sample2_def r Let_def)
qed

lemma evolve_with_small_pool:
  assumes "length (select ga cs) < 2" "length (select ga cs) < length cs"
  shows "evolve_generation_with mate ga cs r = Inl ValueError"
proof -
  obtain n where n: "length cs - length (select ga cs) = Suc n"
    using assms(2) by (cases "length cs - length (select ga cs)") simp_all
  have "random_sample2 (select ga cs) r = Inl ValueError"
    using assms(1) by (simp add: random_sample2_def)
  then show ?thesis
    by (simp add: evolve_generation_with_def Let_def n)
qed

lemma evolve_with_empty: "evolve_generation_with mate ga [] r = Inr ([], r)"
  by (simp add: evolve_generation_with_def Let_def select_def slice_to_def sorted_reverse_def)

lemma evolve_with_first_mating_fails:
  assumes "random_sample2 (select ga cs) r = Inr ((a, b), r1)"
      and "mate a b Location_init r1 = Inl e"
      and "length (select ga cs) < length cs"
  shows "evolve_generation_with mate ga cs r = Inl e"
proof -
  obtain n where n: "length cs - length (select ga cs) = Suc n"
    using assms(3) by (cases "length cs - length (select ga cs)") simp_all
  show ?thesis
    using assms(1,2) by (simp add: evolve_generation_with_def Let_def n)
qed

text \<open>The program's own generation step returns on the empty population only.\<close>

lemma evolve_generation_nonempty_raises:
  assumes "0 < selection_frac ga" "selection_frac ga < 1" "cs \<noteq> []"
  shows "\<exists>e. evolve_generation ga cs mut_p mut_b r = Inl e"
proof (cases "length (select ga cs) < 2")
  case True
  then show ?thesis
    using evolve_with_small_pool [OF True select_shorter [OF assms]]
    by (simp add: evolve_generation_def)
next
  case False
  then obtain a b r1 where s: "random_sample2 (select ga cs) r = Inr ((a, b), r1)"
    using random_sample2_ok [of "select ga cs" r] by auto
  let ?mate = "\<lambda>a b loc. mate_pair ga a b loc mut_p mut_b no_kwargs"
  obtain e where "?mate a b Location_init r1 = Inl e"
    using mate_pair_mismatch [of a b] mate_pair_same_class [of a b] by (cases "cls a = cls b") auto
  then show ?thesis
    using evolve_with_first_mating_fails [OF s _ select_shorter [OF assms], of ?mate e]
    by (simp add: evolve_generation_def)
qed


lemma sample_ex_population:
  "random_sample2 (select ga_half ex_population) rng0
   = Inr ((ex_critter Herby_cls 10, ex_critter Herby_cls 5), Rng 2 (\<lambda>k. 0) (\<lambda>k. 0))"
  by (simp add: select_ex_population random_sample2_def rng0_def numeral_2_eq_2)

lemma select_ex_population_shorter:
  "length (select ga_half ex_population) < length ex_population"
  by (simp add: select_ex_population) (simp add: ex_population_def)

text \<open>
  Claim C1. On the population of four individuals of fitness 10, 1, 5, 2 at fraction
  0.5, a parent pool of two, the generation step does not return a population of size
  four: the first mating raises AttributeError in the crossover, and the step ends with
  that exception.
\<close>

theorem evolve_generation_raises_at_example:
  "length ex_population = 4
   \<and> length (select ga_half ex_population) = 2
   \<and> evolve_generation ga_half ex_population True True rng0 = Inl AttributeError"
proof -
  let ?mate = "\<lambda>a b loc. mate_pair ga_half a b loc True True no_kwargs"
  have m: "?mate (ex_critter Herby_cls 10) (ex_critter Herby_cls 5) Location_init
             (Rng 2 (\<lambda>k. 0) (\<lambda>k. 0)) = Inl AttributeError"
    by (rule mate_pair_same_class) (simp add: ex_critter_def)
  have "evolve_generation_with ?mate ga_half ex_population rng0 = Inl AttributeError"
    by (rule evolve_with_first_mating_fails
        [where mate = ?mate, OF sample_ex_population m select_ex_population_shorter])
  then show ?thesis
    by (simp add: evolve_generation_def select_ex_population) (simp add: ex_population_def)
qed

text \<open>
  Claim C2. On the same population the two fittest individuals, of fitness 10 and 5,
  are selected, but the generation step has no output for them to appear in: with
  mutation switched off as well, the first mating raises AttributeError in the
  crossover and the step ends with that exception.
\<close>

theorem evolve_generation_loses_elite:
  "select ga_half ex_population = [ex_critter Herby_cls 10, ex_critter Herby_cls 5]
   \<and> evolve_generation ga_half ex_population False False rng0 = Inl AttributeError"
proof -
  let ?mate = "\<lambda>a b loc. mate_pair ga_half a b loc False False no_kwargs"
  have m: "?mate (ex_critter Herby_cls 10) (ex_critter Herby_cls 5) Location_init
             (Rng 2 (\<lambda>k. 0) (\<lambda>k. 0)) = Inl AttributeError"
    by (rule mate_pair_same_class) (simp add: ex_critter_def)
  have "evolve_generation_with ?mate ga_half ex_population rng0 = Inl AttributeError"
    by (rule evolve_with_first_mating_fails
        [where mate = ?mate, OF sample_ex_population m select_ex_population_shorter])
  then show ?thesis
    by (simp add: evolve_generation_def select_ex_population)
qed

text \<open>
  Claim C8, as stated, fails: selection and evolution of the empty population return
  the empty list without any error, and evolution of a single individual raises the
  ValueError of \<^verbatim>\<open>random.sample\<close>, not an EmptyPopulationError.
\<close>

theorem empty_population_counterexample:
  "select ga_half [] = []
   \<and> evolve_generation ga_half [] True True rng0 = Inr ([], rng0)
   \<and> select ga_half [ex_critter Herby_cls 3] = []
   \<and> evolve_generation ga_half [ex_critter Herby_cls 3] True True rng0 = Inl ValueError
   \<and> exn_name ValueError \<noteq> ''EmptyPopulationError''"
  by (simp add: evolve_generation_def evolve_generation_with_def Let_def select_def
      py_int_def slice_to_def sorted_reverse_def ga_half_def ex_critter_def
      random_sample2_def)

text \<open>
  Claim C8, amended. Selection never fails, and on a population of zero or one
  individual it returns the empty parent pool. Evolution of the empty population
  returns the empty population. Evolution of a non-empty population whose parent pool
  has fewer than two individuals fails with the ValueError raised by the sampling of
  two parents; no guard precedes it.
\<close>

theorem evolve_generation_small_pool:
  assumes "0 < selection_frac ga" and "selection_frac ga < 1"
  shows "evolve_generation ga [] mut_p mut_b r = Inr ([], r)
       \<and> (length cs \<le> 1 \<longrightarrow> select ga cs = [])
       \<and> (cs \<noteq> [] \<and> length (select ga cs) < 2
            \<longrightarrow> evolve_generation ga cs mut_p mut_b r = Inl ValueError)"
proof -
  have "evolve_generation ga cs mut_p mut_b r = Inl ValueError"
    if "cs \<noteq> []" "length (select ga cs) < 2"
    using evolve_with_small_pool [OF that(2) select_shorter [OF assms that(1)]]
    by (simp add: evolve_generation_def)
  then show ?thesis
    using select_small [OF assms, of cs] by (simp add: evolve_generation_def evolve_with_empty)
qed

theorem evolve_generation_small_pool_witness:
  "0 < selection_frac ga_half \<and> selection_frac ga_half < 1
   \<and> length [ex_critter Herby_cls 3] \<le> 1
   \<and> [ex_critter Herby_cls 3] \<noteq> []
   \<and> length (select ga_half [ex_critter Herby_cls 3]) < 2
   \<and> select ga_half [ex_critter Herby_cls 3] = []
   \<and> evolve_generation ga_half [ex_critter Herby_cls 3] True True rng0 = Inl ValueError"
proof -
  have h0: "0 < selection_frac ga_half" and h1: "selection_frac ga_half < 1"
    by (simp_all add: ga_half_def)
  note t = evolve_generation_small_pool [OF h0 h1, of True True rng0 "[ex_critter Herby_cls 3]"]
  have e: "select ga_half [ex_critter Herby_cls 3] = []"
    using t by simp
  then have "evolve_generation ga_half [ex_critter Herby_cls 3] True True rng0 = Inl ValueError"
    using t by simp
  then show ?thesis
    using h0 h1 e by simp
qed

text \<open>
  Claim C9, as stated, fails: mating a critter of the base class with a Herby raises
  AssertionError, not SpeciesMismatch.
\<close>

theorem species_mismatch_counterexample:
  "mate_pair ga_half (ex_critter Critter_cls 10) (ex_critter Herby_cls 5) Location_init
     True True no_kwargs rng0 = Inl AssertionError
   \<and> exn_name AssertionError \<noteq> ''SpeciesMismatch''"
  by (simp add: mate_pair_def ex_critter_def)

text \<open>
  Claim C9, amended. Mating two critters of different classes raises AssertionError
  and produces no offspring, and the generation step does not catch it: when the
  first pair it samples is of different classes, it ends with that AssertionError.
\<close>

theorem mate_pair_class_mismatch_uncaught:
  "(cls p \<noteq> cls s \<longrightarrow> mate_pair ga p s loc mut_p mut_b kw r = Inl AssertionError)
   \<and> (random_sample2 (select ga cs) r = Inr ((a, b), r1) \<and> cls a \<noteq> cls b
        \<and> length (select ga cs) < length cs
        \<longrightarrow> evolve_generation ga cs mut_p mut_b r = Inl AssertionError)"
proof -
  let ?mate = "\<lambda>a b loc. mate_pair ga a b loc mut_p mut_b no_kwargs"
  have "evolve_generation ga cs mut_p mut_b r = Inl AssertionError"
    if "random_sample2 (select ga cs) r = Inr ((a, b), r1)" "cls a \<noteq> cls b"
       "length (select ga cs) < length cs"
    using evolve_with_first_mating_fails [where mate = ?mate, OF that(1) _ that(3)]
      mate_pair_mismatch [OF that(2)]
    by (simp add: evolve_generation_def)
  then show ?thesis
    using mate_pair_mismatch [of p s] by blast
qed

theorem mate_pair_class_mismatch_uncaught_witness:
  "cls (ex_critter Critter_cls 10) \<noteq> cls (ex_critter Herby_cls 5)
   \<and> mate_pair ga_half (ex_critter Critter_cls 10) (ex_critter Herby_cls 5) Location_init
       True True no_kwargs rng0 = Inl AssertionError
   \<and> random_sample2 (select ga_half mixed_population) rng0
       = Inr ((ex_critter Critter_cls 10, ex_critter Herby_cls 5), Rng 2 (\<lambda>k. 0) (\<lambda>k. 0))
   \<and> length (select ga_half mixed_population) < length mixed_population
   \<and> evolve_generation ga_half mixed_population True True rng0 = Inl AssertionError"
proof -
  let ?a = "ex_critter Critter_cls 10" and ?b = "ex_critter Herby_cls 5"
  have c: "cls ?a \<noteq> cls ?b"
    by (simp add: ex_critter_def)
  have smp: "random_sample2 (select ga_half mixed_population) rng0
             = Inr ((?a, ?b), Rng 2 (\<lambda>k. 0) (\<lambda>k. 0))"
    by (simp add: select_mixed_population random_sample2_def rng0_def numeral_2_eq_2)
  have len: "length (select ga_half mixed_population) < length mixed_population"
    by (simp add: select_mixed_population) (simp add: mixed_population_def)
  note t = mate_pair_class_mismatch_uncaught
    [of ?a ?b ga_half Location_init True True no_kwargs rng0 mixed_population ?a ?b
        "Rng 2 (\<lambda>k. 0) (\<lambda>k. 0)"]
  have m: "mate_pair ga_half ?a ?b Location_init True True no_kwargs rng0 = Inl AssertionError"
    using t c by blast
  have e: "evolve_generation ga_half mixed_population True True rng0 = Inl AssertionError"
    using t c smp len by blast
  show ?thesis
    using c m smp len e by blast
qed

end
